theory Spec2Isabelle
  imports Main "HOL-Library.Word"
begin

section \<open>History and export caches\<close>

text \<open>
  The history caches are \<open>string[]\<close> states that start empty and are only ever updated
  by the idiom \<open>prev => [...new Set([dataUrl, ...prev])]\<close> (handleImageSelect,
  handleGeneratorMaterialSelect, handleProcessImage, handlePatternMaterialSelect,
  handlePatternSubmit). A JavaScript \<open>Set\<close> built from an iterable adds the elements in
  order and skips one that is already a member; spreading it lists the members in
  insertion order.
\<close>

definition set_add :: "'a \<Rightarrow> 'a list \<Rightarrow> 'a list" where
  "set_add x acc = (if x \<in> set acc then acc else acc @ [x])"

definition set_spread :: "'a list \<Rightarrow> 'a list" where
  "set_spread xs = fold set_add xs []"

definition history_insert :: "string \<Rightarrow> string list \<Rightarrow> string list" where
  "history_insert dataUrl prev = set_spread (dataUrl # prev)"

text \<open>The values a history cache can take: the initial \<open>[]\<close> and every insertion into one.\<close>

inductive history_cache :: "string list \<Rightarrow> bool" where
  initial: "history_cache []"
| inserted: "history_cache prev \<Longrightarrow> history_cache (history_insert dataUrl prev)"

text \<open>
  handleExportImage: \<open>prev.includes(imageUrl) ? prev : [imageUrl, ...prev]\<close>.
\<close>

definition handleExportImage :: "string \<Rightarrow> string list \<Rightarrow> string list" where
  "handleExportImage imageUrl prev =
     (if imageUrl \<in> set prev then prev else imageUrl # prev)"

text \<open>handleDeleteExportedImage: \<open>prev.filter((_, index) => index !== indexToDelete)\<close>.\<close>

definition handleDeleteExportedImage :: "nat \<Rightarrow> string list \<Rightarrow> string list" where
  "handleDeleteExportedImage indexToDelete prev =
     map snd (filter (\<lambda>(index, _). index \<noteq> indexToDelete) (zip [0..<length prev] prev))"

section \<open>Platform strings\<close>

text \<open>
  JavaScript strings are modelled as \<open>string\<close>. Data URLs, MIME types and base64 text
  are ASCII, and \<open>atob\<close> returns a binary string whose code units are below 256, so
  one \<open>char\<close> per code unit is enough. A thrown value is \<open>Error message\<close> when it is
  an instance of \<open>Error\<close> (a \<open>TypeError\<close> or a \<open>DOMException\<close> is one, with a
  message chosen by the engine), and \<open>NonError\<close> otherwise.
\<close>

datatype exn = Error string | NonError

definition typeError :: exn where
  "typeError = Error ''TypeError''"


text \<open>Truthiness of a \<open>string | null\<close> value: \<open>null\<close> and \<open>""\<close> are falsy.\<close>

definition truthy :: "string option \<Rightarrow> bool" where
  "truthy v = (case v of None \<Rightarrow> False | Some s \<Rightarrow> s \<noteq> [])"

text \<open>String conversion of a possibly undefined string, as \<open>atob(undefined)\<close> does.\<close>

definition js_string :: "string option \<Rightarrow> string" where
  "js_string v = (case v of None \<Rightarrow> ''undefined'' | Some s \<Rightarrow> s)"

text \<open>Reading \<open>arr[i]\<close>: \<open>undefined\<close> out of range.\<close>

definition nth_opt :: "'a list \<Rightarrow> nat \<Rightarrow> 'a option" where
  "nth_opt xs i = (if i < length xs then Some (xs ! i) else None)"

text \<open>\<open>s.split(sep)\<close> for a one-character separator.\<close>

fun split_on :: "char \<Rightarrow> string \<Rightarrow> string list" where
  "split_on sep [] = [[]]"
| "split_on sep (c # cs) =
     (if c = sep then [] # split_on sep cs
      else (case split_on sep cs of
              [] \<Rightarrow> [[c]]
            | p # ps \<Rightarrow> (c # p) # ps))"

text \<open>
  \<open>s.match(/:(.*?);/)\<close>, returning the first group. The match starts at the leftmost
  \<open>:\<close> from which it succeeds; the lazy \<open>.*?\<close> stops at the first \<open>;\<close>, and \<open>.\<close>
  does not match a line terminator.
\<close>

definition line_terminator :: "char \<Rightarrow> bool" where
  "line_terminator c = (c = CHR 0x0A \<or> c = CHR 0x0D)"

fun lazy_until_semicolon :: "string \<Rightarrow> string option" where
  "lazy_until_semicolon [] = None"
| "lazy_until_semicolon (c # cs) =
     (if c = CHR '';'' then Some []
      else if line_terminator c then None
      else map_option ((#) c) (lazy_until_semicolon cs))"

fun match_mime :: "string \<Rightarrow> string option" where
  "match_mime [] = None"
| "match_mime (c # cs) =
     (if c = CHR '':'' then
        (case lazy_until_semicolon cs of
           Some g \<Rightarrow> Some g
         | None \<Rightarrow> match_mime cs)
      else match_mime cs)"

section \<open>Base64 as the platform computes it\<close>

text \<open>
  \<open>FileReader.readAsDataURL\<close> and \<open>atob\<close> belong to the browser, not to the
  repository. They are modelled after their definitions: RFC 4648 base64 with padding
  for the encoder, and the forgiving-base64 decoder of the WHATWG Infra standard for
  \<open>atob\<close> (strip ASCII whitespace, drop one or two trailing \<open>=\<close> when the length is a
  multiple of four, fail on length 1 modulo 4 or on a character outside the alphabet,
  then collect six bits per character and drop the incomplete last byte).
\<close>

definition b64_char :: "nat \<Rightarrow> char" where
  "b64_char n =
     (if n < 26 then char_of (65 + n)
      else if n < 52 then char_of (71 + n)
      else if n < 62 then char_of (n - 4)
      else if n = 62 then CHR ''+''
      else CHR ''/'')"


text \<open>The six-bit groups of a byte sequence; an incomplete last group is filled with zero bits.\<close>

fun sextets :: "nat list \<Rightarrow> nat list" where
  "sextets [] = []"
| "sextets [a] = [a div 4, (a mod 4) * 16]"
| "sextets [a, b] = [a div 4, (a mod 4) * 16 + b div 16, (b mod 16) * 4]"
| "sextets (a # b # c # bs) =
     [a div 4, (a mod 4) * 16 + b div 16, (b mod 16) * 4 + c div 64, c mod 64] @ sextets bs"

text \<open>The padding for \<open>n\<close> bytes: none, \<open>==\<close> or \<open>=\<close> as \<open>n\<close> is 0, 1 or 2 modulo 3.\<close>

definition padding :: "nat \<Rightarrow> string" where
  "padding n = replicate ((3 - n mod 3) mod 3) CHR ''=''"

definition base64_encode :: "8 word list \<Rightarrow> string" where
  "base64_encode bytes = map b64_char (sextets (map unat bytes)) @ padding (length bytes)"





section \<open>Files and data URLs\<close>

text \<open>
  A \<open>File\<close> is its bytes, its name and its MIME type. Reading a file already in memory
  is taken to succeed (the \<open>reader.onerror\<close> branches are not modelled).
\<close>

record File =
  file_bytes :: "8 word list"
  file_name :: string
  file_type :: string

text \<open>
  \<open>FileReader.readAsDataURL\<close>: the media type written is the file's type, and
  \<open>application/octet-stream\<close> for a file whose type is empty.
\<close>

definition media_type :: "File \<Rightarrow> string" where
  "media_type f = (if file_type f = [] then ''application/octet-stream'' else file_type f)"

definition readAsDataURL :: "File \<Rightarrow> string" where
  "readAsDataURL f = ''data:'' @ media_type f @ '';base64,'' @ base64_encode (file_bytes f)"





text \<open>fileToBase64: \<open>result.split(',')[1]\<close>.\<close>

definition fileToBase64 :: "File \<Rightarrow> string option" where
  "fileToBase64 f = nth_opt (split_on CHR '','' (readAsDataURL f)) 1"



text \<open>parseDataUrl; \<open>parts[1]\<close> is \<open>undefined\<close> when the text has no comma.\<close>

definition parseDataUrl :: "string \<Rightarrow> exn + (string \<times> string option)" where
  "parseDataUrl dataUrl =
     (let parts = split_on CHR '','' dataUrl in
      case nth_opt parts 0 of
        None \<Rightarrow> Inl typeError
      | Some parts0 \<Rightarrow>
         (case match_mime parts0 of
            None \<Rightarrow> Inl (Error ''Invalid data URL format'')
          | Some mimeType \<Rightarrow> Inr (mimeType, nth_opt parts 1)))"

section \<open>Generation client\<close>

text \<open>
  The response of \<open>ai.models.generateContent\<close>: optional candidates, the first one's
  optional content, its optional parts; a part may carry inline data, text, both or
  neither.
\<close>

record Blob =
  data :: string
  mimeType :: string

record Part =
  inlineData :: "Blob option"
  partText :: "string option"

record Content =
  parts :: "Part list option"

record Candidate =
  content :: "Content option"

record GenerateContentResponse =
  candidates :: "Candidate list option"

datatype SurfaceType = Flooring | Walls
datatype GenerationMode = PatternAndMaterial | PatternOnly | MaterialOnly
datatype TileUnit = Unit_cm | Unit_inches
datatype ActiveTab = Tab_generator | Tab_extractor | Tab_pattern
datatype ExtractionType = Extract_Pattern | Extract_Material

text \<open>
  Every instruction text of the source is a fixed template literal with a few values
  interpolated. No property below depends on the wording, so a prompt is kept as the
  name of its template together with the interpolated values: the user's instruction
  for editImageWithPrompt; the extraction type and the optional dimensions for
  extractAndProcessImage; the surface type, whether \<open>materials.length > 1\<close>, and the
  optional tile dimensions for the three generator modes; the user's prompt for
  createFromOutline.
\<close>

datatype Prompt =
    EditPrompt string
  | ExtractionPrompt ExtractionType "string option"
  | PatternAndMaterialPrompt SurfaceType bool "string option"
  | PatternOnlyPrompt SurfaceType "string option"
  | MaterialOnlyPrompt SurfaceType bool
  | FromOutlinePrompt string

text \<open>A request part is \<open>{inlineData: {data, mimeType}}\<close> or \<open>{text}\<close>.\<close>

datatype RequestPart = InlineData "string option" string | TextPart Prompt

text \<open>What goes over the network: a one-shot request, or a turn of the chat session.\<close>

datatype NetworkCall = GenerateContent "RequestPart list" | ChatSendMessage string

type_synonym generateContent = "RequestPart list \<Rightarrow> exn + GenerateContentResponse"

definition dataUri :: "Blob \<Rightarrow> string" where
  "dataUri b = ''data:'' @ mimeType b @ '';base64,'' @ data b"

text \<open>The loop of generateSurfaceDesign, which breaks at the first part with inline data.\<close>

fun first_inlineData :: "Part list \<Rightarrow> string option" where
  "first_inlineData [] = None"
| "first_inlineData (part # ps) =
     (case inlineData part of
        Some b \<Rightarrow> Some (dataUri b)
      | None \<Rightarrow> first_inlineData ps)"

text \<open>
  generateSurfaceDesign returns the calls it made and either the thrown value (the
  \<open>catch\<close> logs and rethrows) or \<open>imageUrl\<close>, which is \<open>null\<close> when no part had an image.
\<close>

definition generateSurfaceDesign ::
  "generateContent \<Rightarrow> Prompt \<Rightarrow> File list \<Rightarrow> NetworkCall list \<times> (exn + string option)" where
  "generateSurfaceDesign backend prompt images =
     (let imageParts = map (\<lambda>image. InlineData (fileToBase64 image) (file_type image)) images;
          request = imageParts @ [TextPart prompt]
      in ([GenerateContent request],
          (case backend request of
             Inl err \<Rightarrow> Inl err
           | Inr response \<Rightarrow>
              (let imageUrl =
                     (case candidates response of
                        None \<Rightarrow> None
                      | Some [] \<Rightarrow> None
                      | Some (c # _) \<Rightarrow>
                         (case content c of
                            None \<Rightarrow> None
                          | Some ct \<Rightarrow>
                             (case parts ct of
                                None \<Rightarrow> None
                              | Some ps \<Rightarrow> first_inlineData ps)))
               in if \<not> truthy imageUrl then Inr None else Inr imageUrl))))"

definition extractAndProcessImage ::
  "generateContent \<Rightarrow> File \<Rightarrow> ExtractionType \<Rightarrow> string option
     \<Rightarrow> NetworkCall list \<times> (exn + string option)" where
  "extractAndProcessImage backend sourceImage extractionType dimensions =
     generateSurfaceDesign backend (ExtractionPrompt extractionType dimensions) [sourceImage]"

text \<open>
  \<open>Promise.all\<close>: the results in the order of the promises, or a rejection as soon as one
  member rejects. Which rejection is reported depends on timing; the model reports the
  one of the lowest index.
\<close>

fun promise_all :: "(exn + 'a) list \<Rightarrow> exn + 'a list" where
  "promise_all [] = Inr []"
| "promise_all (Inl e # rs) = Inl e"
| "promise_all (Inr x # rs) =
     (case promise_all rs of
        Inl e \<Rightarrow> Inl e
      | Inr xs \<Rightarrow> Inr (x # xs))"

text \<open>
  runBatchGeneration; \<open>backend i\<close> answers the \<open>i\<close>-th of the concurrent calls, each an
  independent invocation of the model.
\<close>

definition runBatchGeneration ::
  "(nat \<Rightarrow> generateContent) \<Rightarrow> Prompt \<Rightarrow> File list \<Rightarrow> nat
     \<Rightarrow> NetworkCall list \<times> (exn + string list)" where
  "runBatchGeneration backend prompt imageFiles numberOfImages =
     (let generationPromises =
            map (\<lambda>i. generateSurfaceDesign (backend i) prompt imageFiles) [0..<numberOfImages]
      in (concat (map fst generationPromises),
          (case promise_all (map snd generationPromises) of
             Inl e \<Rightarrow> Inl e
           | Inr results \<Rightarrow>
              (let imageUrls = map the (filter (\<lambda>url. url \<noteq> None) results)
               in if length imageUrls = 0 then
                    Inl (Error ''The AI failed to generate any images. Please try a different combination of images or prompt.'')
                  else Inr imageUrls))))"

definition applyPatternAndMaterial ::
  "(nat \<Rightarrow> generateContent) \<Rightarrow> File \<Rightarrow> File \<Rightarrow> File list \<Rightarrow> SurfaceType \<Rightarrow> nat \<Rightarrow> string option
     \<Rightarrow> NetworkCall list \<times> (exn + string list)" where
  "applyPatternAndMaterial backend renderShot pattern materials surfaceType numberOfImages tileDimensions =
     runBatchGeneration backend
       (PatternAndMaterialPrompt surfaceType (length materials > 1) tileDimensions)
       ([renderShot, pattern] @ materials) numberOfImages"

definition applyPatternOnly ::
  "(nat \<Rightarrow> generateContent) \<Rightarrow> File \<Rightarrow> File \<Rightarrow> SurfaceType \<Rightarrow> nat \<Rightarrow> string option
     \<Rightarrow> NetworkCall list \<times> (exn + string list)" where
  "applyPatternOnly backend renderShot pattern surfaceType numberOfImages tileDimensions =
     runBatchGeneration backend (PatternOnlyPrompt surfaceType tileDimensions)
       [renderShot, pattern] numberOfImages"

definition applyMaterialOnly ::
  "(nat \<Rightarrow> generateContent) \<Rightarrow> File \<Rightarrow> File list \<Rightarrow> SurfaceType \<Rightarrow> nat
     \<Rightarrow> NetworkCall list \<times> (exn + string list)" where
  "applyMaterialOnly backend renderShot materials surfaceType numberOfImages =
     runBatchGeneration backend (MaterialOnlyPrompt surfaceType (length materials > 1))
       ([renderShot] @ materials) numberOfImages"

definition createFromOutline ::
  "generateContent \<Rightarrow> File \<Rightarrow> File list \<Rightarrow> File option \<Rightarrow> string
     \<Rightarrow> NetworkCall list \<times> (exn + string option)" where
  "createFromOutline backend outline materials reference prompt =
     generateSurfaceDesign backend (FromOutlinePrompt prompt)
       ([outline] @ materials @ (case reference of None \<Rightarrow> [] | Some r \<Rightarrow> [r]))"

text \<open>
  The loop of editImageWithPrompt over the parts: no \<open>break\<close>; a part with inline data
  assigns \<open>imageUrl\<close>, otherwise a part with non-empty text assigns \<open>text\<close>.
\<close>

definition edit_part :: "Part \<Rightarrow> string option \<times> string option \<Rightarrow> string option \<times> string option" where
  "edit_part part acc =
     (case inlineData part of
        Some b \<Rightarrow> (Some (dataUri b), snd acc)
      | None \<Rightarrow> (if truthy (partText part) then (fst acc, partText part) else acc))"

definition edit_parts :: "GenerateContentResponse \<Rightarrow> exn + (string option \<times> string option)" where
  "edit_parts response =
     (case candidates response of
        None \<Rightarrow> Inr (None, None)
      | Some [] \<Rightarrow> Inr (None, None)
      | Some (c # _) \<Rightarrow>
         (case content c of
            None \<Rightarrow> Inl typeError
          | Some ct \<Rightarrow>
             (case parts ct of
                None \<Rightarrow> Inl typeError
              | Some ps \<Rightarrow> Inr (fold edit_part ps (None, None)))))"

text \<open>
  editImageWithPrompt. The \<open>catch\<close> rethrows an \<open>Error\<close> and replaces any other thrown
  value.
\<close>

definition editImageWithPrompt ::
  "generateContent \<Rightarrow> string option \<Rightarrow> string \<Rightarrow> string
     \<Rightarrow> NetworkCall list \<times> (exn + (string option \<times> string option))" where
  "editImageWithPrompt backend base64Image mimeType' prompt =
     (let request = [InlineData base64Image mimeType', TextPart (EditPrompt prompt)]
      in ([GenerateContent request],
          (case backend request of
             Inl (Error m) \<Rightarrow> Inl (Error m)
           | Inl NonError \<Rightarrow> Inl (Error ''An unknown error occurred while editing the image.'')
           | Inr response \<Rightarrow>
              (case edit_parts response of
                 Inl err \<Rightarrow> Inl err
               | Inr (imageUrl, text') \<Rightarrow>
                  (if \<not> truthy imageUrl then
                     (if truthy text' then
                        Inl (Error (''The AI responded but did not return an image: '' @ [CHR 0x22]
                                    @ js_string text' @ [CHR 0x22]))
                      else Inl (Error ''The AI did not return an image for your edit request.''))
                   else Inr (imageUrl, text'))))))"

section \<open>Application state\<close>

record ImageState =
  imageFile :: "File option"
  previewUrl :: "string option"

datatype Sender = Sender_user | Sender_bot

record Message =
  msg_id :: nat
  msg_text :: string
  msg_sender :: Sender

text \<open>The live chat session is an opaque handle; \<open>chatRef\<close> holds it or \<open>null\<close>.\<close>

datatype Chat = Chat

text \<open>The \<open>useState\<close> cells of \<open>App\<close> that the handlers below read or write.\<close>

record App =
  activeTab :: ActiveTab
  apiKeyError :: "string option"
  surfaceType :: SurfaceType
  generationMode :: GenerationMode
  renderShot :: ImageState
  pattern :: ImageState
  materials :: "ImageState list"
  outputImages :: "string list option"
  loading :: bool
  error :: "string option"
  tileWidth :: string
  tileHeight :: string
  tileUnit :: TileUnit
  numberOfVariations :: nat
  sourceImage :: ImageState
  extractionType :: ExtractionType
  processedImage :: "string option"
  isProcessing :: bool
  processingError :: "string option"
  sourceWidth :: string
  sourceHeight :: string
  sourceUnit :: TileUnit
  patternOutline :: ImageState
  patternMaterials :: "ImageState list"
  patternReference :: ImageState
  patternPrompt :: string
  patternOutput :: "string option"
  isPatternGenerating :: bool
  patternError :: "string option"
  isBotTyping :: bool
  messages :: "Message list"
  chatRef :: "Chat option"
  renderShotHistory :: "string list"
  patternHistory :: "string list"
  materialHistory :: "string list"
  exportedImages :: "string list"

definition noImage :: ImageState where
  "noImage = \<lparr>imageFile = None, previewUrl = None\<rparr>"

definition unit_text :: "TileUnit \<Rightarrow> string" where
  "unit_text u = (case u of Unit_cm \<Rightarrow> ''cm'' | Unit_inches \<Rightarrow> ''inches'')"

text \<open>\<open>`${w} x ${h} ${unit}`\<close> when both fields are non-empty, else \<open>undefined\<close>.\<close>

definition dimensions_text :: "string \<Rightarrow> string \<Rightarrow> TileUnit \<Rightarrow> string option" where
  "dimensions_text w h u =
     (if w \<noteq> [] \<and> h \<noteq> [] then Some (w @ '' x '' @ h @ '' '' @ unit_text u) else None)"

text \<open>\<open>xs.map(m => m.file).filter(f => f !== null)\<close>.\<close>

definition files_of :: "ImageState list \<Rightarrow> File list" where
  "files_of ms = map the (filter (\<lambda>f. f \<noteq> None) (map imageFile ms))"

section \<open>Switching the active workflow\<close>

text \<open>The effect that depends on \<open>activeTab\<close>.\<close>

definition activeTab_effect :: "App \<Rightarrow> App" where
  "activeTab_effect st =
     (let s1 = (if activeTab st \<noteq> Tab_generator then
                  st\<lparr>renderShot := noImage, pattern := noImage, materials := [],
                     outputImages := None, error := None, tileWidth := [], tileHeight := []\<rparr>
                else st);
          s2 = (if activeTab st \<noteq> Tab_extractor then
                  s1\<lparr>sourceImage := noImage, processedImage := None, processingError := None,
                     sourceWidth := [], sourceHeight := []\<rparr>
                else s1);
          s3 = (if activeTab st \<noteq> Tab_pattern then
                  s2\<lparr>patternOutline := noImage, patternMaterials := [],
                     patternReference := noImage, patternPrompt := [],
                     patternOutput := None, patternError := None\<rparr>
                else s2)
      in s3)"

text \<open>
  \<open>setActiveTab(tab)\<close>: a state cell set to the value it has does not re-render, and the
  effect runs only when \<open>activeTab\<close> has changed.
\<close>

definition setActiveTab :: "ActiveTab \<Rightarrow> App \<Rightarrow> App" where
  "setActiveTab tab st =
     (if activeTab st = tab then st else activeTab_effect (st\<lparr>activeTab := tab\<rparr>))"

section \<open>Submitting a workflow\<close>

text \<open>The \<open>switch\<close> of handleGeneratorSubmit: the validation of each mode, then the call.\<close>

definition generator_switch ::
  "(nat \<Rightarrow> generateContent) \<Rightarrow> App \<Rightarrow> NetworkCall list \<times> (exn + string list)" where
  "generator_switch backend st =
     (let materialFiles = files_of (materials st);
          tileDimensions = dimensions_text (tileWidth st) (tileHeight st) (tileUnit st)
      in case generationMode st of
           PatternAndMaterial \<Rightarrow>
             (case imageFile (renderShot st) of
                None \<Rightarrow> ([], Inl (Error ''Please upload a Render Shot, a Pattern, and at least one Material image.''))
              | Some r \<Rightarrow>
                 (case imageFile (pattern st) of
                    None \<Rightarrow> ([], Inl (Error ''Please upload a Render Shot, a Pattern, and at least one Material image.''))
                  | Some p \<Rightarrow>
                     (if length materialFiles = 0 then
                        ([], Inl (Error ''Please upload a Render Shot, a Pattern, and at least one Material image.''))
                      else applyPatternAndMaterial backend r p materialFiles (surfaceType st)
                             (numberOfVariations st) tileDimensions)))
         | PatternOnly \<Rightarrow>
             (case imageFile (renderShot st) of
                None \<Rightarrow> ([], Inl (Error ''Please upload a Render Shot and a Pattern Image for this mode.''))
              | Some r \<Rightarrow>
                 (case imageFile (pattern st) of
                    None \<Rightarrow> ([], Inl (Error ''Please upload a Render Shot and a Pattern Image for this mode.''))
                  | Some p \<Rightarrow>
                     applyPatternOnly backend r p (surfaceType st) (numberOfVariations st)
                       tileDimensions))
         | MaterialOnly \<Rightarrow>
             (case imageFile (renderShot st) of
                None \<Rightarrow> ([], Inl (Error ''Please upload a Render Shot and at least one Material Image for this mode.''))
              | Some r \<Rightarrow>
                 (if length materialFiles = 0 then
                    ([], Inl (Error ''Please upload a Render Shot and at least one Material Image for this mode.''))
                  else applyMaterialOnly backend r materialFiles (surfaceType st)
                         (numberOfVariations st))))"

definition handleGeneratorSubmit ::
  "(nat \<Rightarrow> generateContent) \<Rightarrow> App \<Rightarrow> App \<times> NetworkCall list" where
  "handleGeneratorSubmit backend st =
     (if truthy (apiKeyError st) then (st, [])
      else
        (let st1 = st\<lparr>loading := True, error := None, outputImages := None\<rparr>;
             (calls, result) = generator_switch backend st;
             st2 = (case result of
                      Inr imageUrls \<Rightarrow>
                        (if length imageUrls > 0 then st1\<lparr>outputImages := Some imageUrls\<rparr>
                         else st1\<lparr>error := Some ''Failed to generate image. The AI did not return any images.''\<rparr>)
                    | Inl (Error m) \<Rightarrow> st1\<lparr>error := Some m\<rparr>
                    | Inl NonError \<Rightarrow> st1\<lparr>error := Some ''An unknown error occurred.''\<rparr>)
         in (st2\<lparr>loading := False\<rparr>, calls)))"

definition handleProcessImage :: "generateContent \<Rightarrow> App \<Rightarrow> App \<times> NetworkCall list" where
  "handleProcessImage backend st =
     (if truthy (apiKeyError st) then (st, [])
      else
        (case imageFile (sourceImage st) of
           None \<Rightarrow> (st\<lparr>processingError := Some ''Please upload an image to process.''\<rparr>, [])
         | Some f \<Rightarrow>
            (let st1 = st\<lparr>isProcessing := True, processingError := None, processedImage := None\<rparr>;
                 dimensions = dimensions_text (sourceWidth st) (sourceHeight st) (sourceUnit st);
                 (calls, result) = extractAndProcessImage backend f (extractionType st) dimensions;
                 st2 = (case result of
                          Inr imageUrl \<Rightarrow>
                            (if truthy imageUrl then
                               (case extractionType st of
                                  Extract_Pattern \<Rightarrow>
                                    st1\<lparr>processedImage := imageUrl,
                                        patternHistory := history_insert (js_string imageUrl) (patternHistory st1)\<rparr>
                                | Extract_Material \<Rightarrow>
                                    st1\<lparr>processedImage := imageUrl,
                                        materialHistory := history_insert (js_string imageUrl) (materialHistory st1)\<rparr>)
                             else st1\<lparr>processingError := Some ''Failed to process image. The AI did not return an image.''\<rparr>)
                        | Inl (Error m) \<Rightarrow> st1\<lparr>processingError := Some m\<rparr>
                        | Inl NonError \<Rightarrow>
                            st1\<lparr>processingError := Some ''An unknown error occurred during processing.''\<rparr>)
             in (st2\<lparr>isProcessing := False\<rparr>, calls))))"

definition handlePatternSubmit :: "generateContent \<Rightarrow> App \<Rightarrow> App \<times> NetworkCall list" where
  "handlePatternSubmit backend st =
     (if truthy (apiKeyError st) then (st, [])
      else
        (case imageFile (patternOutline st) of
           None \<Rightarrow>
             (st\<lparr>patternError := Some ''Please provide a Pattern Outline and at least one Material Image.''\<rparr>, [])
         | Some outline \<Rightarrow>
            (if length (patternMaterials st) = 0 then
               (st\<lparr>patternError := Some ''Please provide a Pattern Outline and at least one Material Image.''\<rparr>, [])
             else
               (let st1 = st\<lparr>isPatternGenerating := True, patternError := None, patternOutput := None\<rparr>;
                    materialFiles = files_of (patternMaterials st);
                    referenceFile = imageFile (patternReference st);
                    (calls, result) =
                       createFromOutline backend outline materialFiles referenceFile (patternPrompt st);
                    st2 = (case result of
                             Inr imageUrl \<Rightarrow>
                               (if truthy imageUrl then
                                  st1\<lparr>patternOutput := imageUrl,
                                      patternHistory := history_insert (js_string imageUrl) (patternHistory st1)\<rparr>
                                else st1\<lparr>patternError := Some ''The AI failed to generate a pattern. Please try again.''\<rparr>)
                           | Inl (Error m) \<Rightarrow> st1\<lparr>patternError := Some m\<rparr>
                           | Inl NonError \<Rightarrow>
                               st1\<lparr>patternError := Some ''An unknown error occurred during pattern generation.''\<rparr>)
                in (st2\<lparr>isPatternGenerating := False\<rparr>, calls)))))"

section \<open>Chat turns\<close>

text \<open>
  handleEdit, the closure inside handleSendMessage. \<open>later\<close> is the value of
  \<open>Date.now()\<close> when the reply is appended.
\<close>

definition handleEdit ::
  "generateContent \<Rightarrow> nat \<Rightarrow> string \<Rightarrow> string \<Rightarrow> (string \<Rightarrow> App \<Rightarrow> App) \<Rightarrow> string \<Rightarrow> App
     \<Rightarrow> App \<times> NetworkCall list" where
  "handleEdit backend later message currentImage setImageCallback successMessage st =
     (let (calls, outcome) =
            (case parseDataUrl currentImage of
               Inl e \<Rightarrow> ([], Inl e)
             | Inr (mimeType', base64) \<Rightarrow>
                (case editImageWithPrompt backend base64 mimeType' message of
                   (cs, Inl e) \<Rightarrow> (cs, Inl e)
                 | (cs, Inr (imageUrl, text')) \<Rightarrow>
                    (if truthy imageUrl then (cs, Inr (js_string imageUrl, text'))
                     else (cs, Inl (Error ''The AI did not return a new image for your edit request.'')))));
          st2 = (case outcome of
                   Inr (imageUrl, text') \<Rightarrow>
                     (setImageCallback imageUrl st)
                       \<lparr>messages := messages st @
                          [\<lparr>msg_id = later + 1,
                            msg_text = (if truthy text' then js_string text' else successMessage),
                            msg_sender = Sender_bot\<rparr>]\<rparr>
                 | Inl (Error m) \<Rightarrow>
                     st\<lparr>messages := messages st @
                          [\<lparr>msg_id = later + 1, msg_text = m, msg_sender = Sender_bot\<rparr>]\<rparr>
                 | Inl NonError \<Rightarrow>
                     st\<lparr>messages := messages st @
                          [\<lparr>msg_id = later + 1,
                            msg_text = ''Sorry, I couldn't edit the image. Please try a different instruction.'',
                            msg_sender = Sender_bot\<rparr>]\<rparr>)
      in (st2\<lparr>isBotTyping := False\<rparr>, calls))"

text \<open>
  handleSendMessage. \<open>sendMessage\<close> is the reply of the chat session to a text (the
  \<open>text\<close> of its response) or what it throws; \<open>now\<close> is \<open>Date.now()\<close> at the start of
  the turn.
\<close>

definition handleSendMessage ::
  "generateContent \<Rightarrow> (string \<Rightarrow> exn + string) \<Rightarrow> nat \<Rightarrow> nat \<Rightarrow> string \<Rightarrow> App
     \<Rightarrow> App \<times> NetworkCall list" where
  "handleSendMessage backend sendMessage now later message st =
     (if truthy (apiKeyError st) then (st, [])
      else
        (let st1 = st\<lparr>messages := messages st @
                          [\<lparr>msg_id = now, msg_text = message, msg_sender = Sender_user\<rparr>],
                       isBotTyping := True\<rparr>
         in if activeTab st = Tab_generator \<and> outputImages st \<noteq> None
               \<and> length (the (outputImages st)) > 0 then
              handleEdit backend later message (hd (the (outputImages st)))
                (\<lambda>newUrl s. s\<lparr>outputImages := Some [newUrl]\<rparr>)
                ''Of course. Here is the updated design.'' st1
            else if activeTab st = Tab_pattern \<and> truthy (patternOutput st) then
              handleEdit backend later message (js_string (patternOutput st))
                (\<lambda>newUrl s. s\<lparr>patternOutput := Some newUrl\<rparr>)
                ''Of course. Here is the updated pattern.'' st1
            else
              (case chatRef st of
                 None \<Rightarrow> (st1, [])
               | Some chat \<Rightarrow>
                  (case sendMessage message of
                     Inr botMessageText \<Rightarrow>
                       (st1\<lparr>messages := messages st1 @
                              [\<lparr>msg_id = later + 1, msg_text = botMessageText, msg_sender = Sender_bot\<rparr>],
                            isBotTyping := False\<rparr>,
                        [ChatSendMessage message])
                   | Inl e \<Rightarrow>
                       (st1\<lparr>messages := messages st1 @
                              [\<lparr>msg_id = later + 1,
                                msg_text = ''I'm sorry, I encountered an error. Please try again.'',
                                msg_sender = Sender_bot\<rparr>],
                            isBotTyping := False\<rparr>,
                        [ChatSendMessage message])))))"

section \<open>Initial state and the notions the properties speak of\<close>

text \<open>The initial values of the state cells.\<close>

definition initialApp :: App where
  "initialApp =
     \<lparr>activeTab = Tab_generator, apiKeyError = None,
      surfaceType = Flooring, generationMode = PatternAndMaterial,
      renderShot = noImage, pattern = noImage, materials = [], outputImages = None,
      loading = False, error = None, tileWidth = [], tileHeight = [], tileUnit = Unit_cm,
      numberOfVariations = 1,
      sourceImage = noImage, extractionType = Extract_Pattern, processedImage = None,
      isProcessing = False, processingError = None, sourceWidth = [], sourceHeight = [],
      sourceUnit = Unit_cm,
      patternOutline = noImage, patternMaterials = [], patternReference = noImage,
      patternPrompt = [], patternOutput = None, isPatternGenerating = False,
      patternError = None,
      isBotTyping = False,
      messages = [\<lparr>msg_id = 1,
                   msg_text = ''Hello! How can I assist you with your Bovali design today?'',
                   msg_sender = Sender_bot\<rparr>],
      chatRef = None,
      renderShotHistory = [], patternHistory = [], materialHistory = [],
      exportedImages = []\<rparr>"

text \<open>The upload slots, the output slot and the error flag of a workflow are all empty.\<close>

definition cleared :: "ActiveTab \<Rightarrow> App \<Rightarrow> bool" where
  "cleared w st =
     (case w of
        Tab_generator \<Rightarrow>
          renderShot st = noImage \<and> pattern st = noImage \<and> materials st = []
          \<and> outputImages st = None \<and> error st = None
      | Tab_extractor \<Rightarrow>
          sourceImage st = noImage \<and> processedImage st = None \<and> processingError st = None
      | Tab_pattern \<Rightarrow>
          patternOutline st = noImage \<and> patternMaterials st = []
          \<and> patternReference st = noImage \<and> patternOutput st = None
          \<and> patternError st = None)"

text \<open>
  Everything a workflow holds: its upload slots, its output (a list for the generator,
  one image for the other two), its error flag and its text fields.
\<close>

definition workflow_state ::
  "ActiveTab \<Rightarrow> App \<Rightarrow> ImageState list \<times> string list option \<times> string option \<times> string list" where
  "workflow_state w st =
     (case w of
        Tab_generator \<Rightarrow>
          ([renderShot st, pattern st] @ materials st, outputImages st, error st,
           [tileWidth st, tileHeight st])
      | Tab_extractor \<Rightarrow>
          ([sourceImage st], map_option (\<lambda>u. [u]) (processedImage st), processingError st,
           [sourceWidth st, sourceHeight st])
      | Tab_pattern \<Rightarrow>
          ([patternOutline st, patternReference st] @ patternMaterials st,
           map_option (\<lambda>u. [u]) (patternOutput st), patternError st, [patternPrompt st]))"

text \<open>A required upload slot of the generator is empty, for the mode selected.\<close>

definition generator_slot_empty :: "App \<Rightarrow> bool" where
  "generator_slot_empty st =
     (case generationMode st of
        PatternAndMaterial \<Rightarrow>
          imageFile (renderShot st) = None \<or> imageFile (pattern st) = None
          \<or> files_of (materials st) = []
      | PatternOnly \<Rightarrow> imageFile (renderShot st) = None \<or> imageFile (pattern st) = None
      | MaterialOnly \<Rightarrow> imageFile (renderShot st) = None \<or> files_of (materials st) = [])"

text \<open>The validation message of each generator mode.\<close>

definition generator_validation_message :: "GenerationMode \<Rightarrow> string" where
  "generator_validation_message m =
     (case m of
        PatternAndMaterial \<Rightarrow>
          ''Please upload a Render Shot, a Pattern, and at least one Material image.''
      | PatternOnly \<Rightarrow> ''Please upload a Render Shot and a Pattern Image for this mode.''
      | MaterialOnly \<Rightarrow>
          ''Please upload a Render Shot and at least one Material Image for this mode.'')"

text \<open>
  The outcomes of the member calls of a batch, in the order of the calls, and the images
  of those members that returned one.
\<close>

definition batch_members ::
  "(nat \<Rightarrow> generateContent) \<Rightarrow> Prompt \<Rightarrow> File list \<Rightarrow> nat \<Rightarrow> (exn + string option) list" where
  "batch_members backend prompt imageFiles n =
     map (\<lambda>i. snd (generateSurfaceDesign (backend i) prompt imageFiles)) [0..<n]"

definition member_images :: "(exn + string option) list \<Rightarrow> string list" where
  "member_images ms =
     concat (map (\<lambda>m. case m of Inr (Some url) \<Rightarrow> [url] | _ \<Rightarrow> []) ms)"

text \<open>Sample values for the concrete instances below.\<close>

definition response_of_parts :: "Part list \<Rightarrow> GenerateContentResponse" where
  "response_of_parts ps = \<lparr>candidates = Some [\<lparr>content = Some \<lparr>parts = Some ps\<rparr>\<rparr>]\<rparr>"

definition image_part :: "string \<Rightarrow> string \<Rightarrow> Part" where
  "image_part mime payload =
     \<lparr>inlineData = Some \<lparr>data = payload, mimeType = mime\<rparr>, partText = None\<rparr>"

definition text_part :: "string \<Rightarrow> Part" where
  "text_part t = \<lparr>inlineData = None, partText = Some t\<rparr>"

definition sample_file :: "string \<Rightarrow> File" where
  "sample_file mime = \<lparr>file_bytes = [0x89, 0x50, 0x4E, 0x47], file_name = ''render.png'', file_type = mime\<rparr>"

text \<open>
  Two backends for a batch: every call returns an image except call 1, which returns text
  only in the first and throws in the second.
\<close>

definition backend_text_at_1 :: "nat \<Rightarrow> generateContent" where
  "backend_text_at_1 i request =
     (if i = 1 then Inr (response_of_parts [text_part ''I cannot do that.''])
      else Inr (response_of_parts [image_part ''image/png'' ''AA=='']))"

definition backend_throws_at_1 :: "nat \<Rightarrow> generateContent" where
  "backend_throws_at_1 i request =
     (if i = 1 then Inl (Error ''quota exceeded'')
      else Inr (response_of_parts [image_part ''image/png'' ''AA=='']))"

text \<open>The output slot of a workflow is non-empty.\<close>

definition output_nonempty :: "ActiveTab \<Rightarrow> App \<Rightarrow> bool" where
  "output_nonempty w st =
     (case w of
        Tab_generator \<Rightarrow> (case outputImages st of None \<Rightarrow> False | Some urls \<Rightarrow> urls \<noteq> [])
      | Tab_extractor \<Rightarrow> truthy (processedImage st)
      | Tab_pattern \<Rightarrow> truthy (patternOutput st))"

text \<open>
  The state at the start of a chat turn, once the user's message is appended and the
  typing indicator is set.
\<close>

definition user_turn :: "nat \<Rightarrow> string \<Rightarrow> App \<Rightarrow> App" where
  "user_turn now message st =
     st\<lparr>messages := messages st @
          [\<lparr>msg_id = now, msg_text = message, msg_sender = Sender_user\<rparr>],
        isBotTyping := True\<rparr>"

text \<open>The text of a response: that of the last part with non-empty text, if any.\<close>

definition response_text :: "Part list \<Rightarrow> string option" where
  "response_text ps =
     (case rev (filter truthy (map partText ps)) of [] \<Rightarrow> None | t # _ \<Rightarrow> t)"

text \<open>
  Sample states for chat turns: the generator showing a batch of three images, the
  extractor showing a processed image, and the pattern studio showing a pattern; in all
  three the chat session exists. Sample backends:
  one that answers an edit with text only, one that answers with text and an image.
\<close>

definition generator_with_batch :: App where
  "generator_with_batch =
     initialApp\<lparr>outputImages := Some [''data:image/png;base64,AA=='',
                                        ''data:image/png;base64,AQ=='',
                                        ''data:image/png;base64,Ag==''],
                 chatRef := Some Chat\<rparr>"

definition extractor_with_output :: App where
  "extractor_with_output =
     initialApp\<lparr>activeTab := Tab_extractor,
                 processedImage := Some ''data:image/png;base64,AA=='',
                 chatRef := Some Chat\<rparr>"

definition pattern_with_output :: App where
  "pattern_with_output =
     initialApp\<lparr>activeTab := Tab_pattern,
                 patternOutput := Some ''data:image/png;base64,AA=='',
                 chatRef := Some Chat\<rparr>"

definition backend_text_only :: generateContent where
  "backend_text_only request = Inr (response_of_parts [text_part ''I cannot edit this image.''])"

definition backend_image :: generateContent where
  "backend_image request =
     Inr (response_of_parts [text_part ''Done.'', image_part ''image/png'' ''Aw==''])"

definition chat_reply :: "string \<Rightarrow> exn + string" where
  "chat_reply message = Inr ''Certainly.''"

section \<open>Properties of the caches\<close>

lemma fold_set_add_distinct:
  "distinct xs \<Longrightarrow> fold set_add xs acc = acc @ filter (\<lambda>x. x \<notin> set acc) xs"
proof (induction xs arbitrary: acc)
  case Nil
  then show ?case by simp
next
  case (Cons x xs)
  then have nx: "x \<notin> set xs" and dx: "distinct xs" by simp_all
  show ?case
  proof (cases "x \<in> set acc")
    case True
    then show ?thesis using Cons.IH [OF dx, of acc] by (simp add: set_add_def)
  next
    case False
    have "filter (\<lambda>y. y \<notin> set (acc @ [x])) xs = filter (\<lambda>y. y \<notin> set acc) xs"
      using nx by (intro filter_cong) auto
    then show ?thesis
      using False Cons.IH [OF dx, of "acc @ [x]"] by (simp add: set_add_def)
  qed
qed

lemma fold_set_add_keeps_distinct:
  "distinct acc \<Longrightarrow> distinct (fold set_add xs acc)"
  by (induction xs arbitrary: acc) (auto simp: set_add_def)

lemma set_spread_distinct: "distinct (set_spread xs)"
  by (simp add: set_spread_def fold_set_add_keeps_distinct)

lemma history_cache_distinct: "history_cache h \<Longrightarrow> distinct h"
  by (induction rule: history_cache.induct) (simp_all add: history_insert_def set_spread_distinct)

lemma history_insert_distinct:
  "distinct prev \<Longrightarrow> history_insert x prev = x # removeAll x prev"
proof -
  assume d: "distinct prev"
  have "history_insert x prev = fold set_add prev [x]"
    by (simp add: history_insert_def set_spread_def set_add_def)
  also have "\<dots> = [x] @ filter (\<lambda>y. y \<notin> set [x]) prev"
    using d by (rule fold_set_add_distinct)
  also have "\<dots> = x # removeAll x prev"
    by (simp add: removeAll_filter_not_eq) (metis)
  finally show ?thesis .
qed

lemma length_removeAll_distinct:
  "distinct xs \<Longrightarrow> x \<in> set xs \<Longrightarrow> Suc (length (removeAll x xs)) = length xs"
  by (induction xs) auto

text \<open>
  C6. A history cache is a value reachable from the empty cache by insertions. Inserting
  an asset that the cache already holds moves it to the front and keeps the length;
  inserting a new asset prepends it; the result never holds a duplicate, so inserting the
  same asset a second time changes nothing and the asset is at the front.
\<close>

theorem history_insert_moves_to_front:
  assumes "history_cache h"
  shows "(x \<in> set h \<longrightarrow>
            history_insert x h = x # removeAll x h \<and> length (history_insert x h) = length h)
       \<and> (x \<notin> set h \<longrightarrow> history_insert x h = x # h)
       \<and> distinct (history_insert x h)
       \<and> history_insert x (history_insert x h) = history_insert x h
       \<and> hd (history_insert x (history_insert x h)) = x"
proof -
  have d: "distinct h" using assms by (rule history_cache_distinct)
  have eq: "history_insert x h = x # removeAll x h"
    using d by (rule history_insert_distinct)
  have d': "distinct (history_insert x h)"
    by (simp add: history_insert_def set_spread_distinct)
  have twice: "history_insert x (history_insert x h) = history_insert x h"
    using history_insert_distinct [OF d', of x] by (simp add: eq)
  have len: "x \<in> set h \<Longrightarrow> length (history_insert x h) = length h"
    using length_removeAll_distinct [OF d] by (simp add: eq)
  have new: "x \<notin> set h \<Longrightarrow> history_insert x h = x # h"
    by (simp add: eq)
  show ?thesis using eq d' twice len new by simp
qed

text \<open>The cache \<open>[b, a]\<close>, an asset it holds and one it does not.\<close>

theorem history_insert_moves_to_front_witness:
  "history_cache [''b'', ''a'']
   \<and> history_insert ''a'' [''b'', ''a''] = [''a'', ''b'']
   \<and> length (history_insert ''a'' [''b'', ''a'']) = 2
   \<and> history_insert ''c'' [''b'', ''a''] = [''c'', ''b'', ''a'']
   \<and> history_insert ''a'' (history_insert ''a'' [''b'', ''a'']) = history_insert ''a'' [''b'', ''a'']"
proof -
  have "history_cache (history_insert ''b'' (history_insert ''a'' []))"
    by (intro history_cache.intros)
  then have hc: "history_cache [''b'', ''a'']"
    by (simp add: history_insert_def set_spread_def set_add_def)
  show ?thesis
    using hc history_insert_moves_to_front [OF hc, of "''a''"]
      history_insert_moves_to_front [OF hc, of "''c''"]
    by (simp add: history_insert_def set_spread_def set_add_def)
qed

text \<open>
  C7, as amended. handleExportImage returns the export cache as it is when it already
  holds the asset (the asset keeps its position), and prepends a new asset; exporting the
  same image twice into an empty gallery leaves it at length 1.
\<close>

theorem handleExportImage_dedup:
  "(x \<in> set g \<longrightarrow> handleExportImage x g = g)
   \<and> (x \<notin> set g \<longrightarrow> handleExportImage x g = x # g)
   \<and> handleExportImage x (handleExportImage x g) = handleExportImage x g
   \<and> length (handleExportImage x (handleExportImage x [])) = 1"
  by (simp add: handleExportImage_def)

text \<open>An asset the gallery holds and one it does not.\<close>

theorem handleExportImage_dedup_witness:
  "''a'' \<in> set [''b'', ''a''] \<and> handleExportImage ''a'' [''b'', ''a''] = [''b'', ''a'']
   \<and> ''c'' \<notin> set [''b'', ''a''] \<and> handleExportImage ''c'' [''b'', ''a''] = [''c'', ''b'', ''a'']
   \<and> length (handleExportImage ''a'' (handleExportImage ''a'' [])) = 1"
  using handleExportImage_dedup [of "''a''" "[''b'', ''a'']"]
    handleExportImage_dedup [of "''c''" "[''b'', ''a'']"]
  by simp

text \<open>
  C7 as stated fails: exporting \<open>b\<close> into the gallery \<open>[a, b]\<close> leaves \<open>[a, b]\<close>; the
  asset is not moved to the front.
\<close>

theorem handleExportImage_not_moved_counterexample:
  "handleExportImage ''b'' [''a'', ''b''] = [''a'', ''b'']
   \<and> handleExportImage ''b'' [''a'', ''b''] \<noteq> ''b'' # removeAll ''b'' [''a'', ''b'']"
  by (simp add: handleExportImage_def)

section \<open>Switching the active workflow: properties\<close>

text \<open>
  C8. Switching from another workflow to \<open>tab\<close> clears the upload slots, the output
  slot and the error flag of every workflow \<open>w\<close> other than \<open>tab\<close>, leaves everything
  the workflow \<open>tab\<close> holds as it was, and leaves the three history caches and the
  export cache as they were.
\<close>

theorem setActiveTab_clears_others:
  assumes "activeTab st \<noteq> tab" and "w \<noteq> tab"
  shows "activeTab (setActiveTab tab st) = tab
       \<and> cleared w (setActiveTab tab st)
       \<and> workflow_state tab (setActiveTab tab st) = workflow_state tab st
       \<and> renderShotHistory (setActiveTab tab st) = renderShotHistory st
       \<and> patternHistory (setActiveTab tab st) = patternHistory st
       \<and> materialHistory (setActiveTab tab st) = materialHistory st
       \<and> exportedImages (setActiveTab tab st) = exportedImages st"
  using assms
  by (cases tab; cases w)
     (simp_all add: setActiveTab_def activeTab_effect_def cleared_def workflow_state_def)

text \<open>
  Switching from the generator, which shows an output, to the extractor, which shows one too.
\<close>

theorem setActiveTab_clears_others_witness:
  "activeTab (initialApp\<lparr>outputImages := Some [''data:image/png;base64,AA==''],
                          processedImage := Some ''data:image/png;base64,AQ=='',
                          renderShotHistory := [''data:image/png;base64,Ag=='']\<rparr>) \<noteq> Tab_extractor
   \<and> Tab_generator \<noteq> Tab_extractor
   \<and> cleared Tab_generator
        (setActiveTab Tab_extractor
           (initialApp\<lparr>outputImages := Some [''data:image/png;base64,AA==''],
                        processedImage := Some ''data:image/png;base64,AQ=='',
                        renderShotHistory := [''data:image/png;base64,Ag=='']\<rparr>))
   \<and> processedImage
        (setActiveTab Tab_extractor
           (initialApp\<lparr>outputImages := Some [''data:image/png;base64,AA==''],
                        processedImage := Some ''data:image/png;base64,AQ=='',
                        renderShotHistory := [''data:image/png;base64,Ag=='']\<rparr>))
       = Some ''data:image/png;base64,AQ==''
   \<and> renderShotHistory
        (setActiveTab Tab_extractor
           (initialApp\<lparr>outputImages := Some [''data:image/png;base64,AA==''],
                        processedImage := Some ''data:image/png;base64,AQ=='',
                        renderShotHistory := [''data:image/png;base64,Ag=='']\<rparr>))
       = [''data:image/png;base64,Ag=='']"
  using setActiveTab_clears_others
    [of "initialApp\<lparr>outputImages := Some [''data:image/png;base64,AA==''],
                      processedImage := Some ''data:image/png;base64,AQ=='',
                      renderShotHistory := [''data:image/png;base64,Ag=='']\<rparr>"
        Tab_extractor Tab_generator]
  by (simp add: initialApp_def workflow_state_def)

section \<open>Submitting with an empty slot\<close>

lemma generator_switch_slot_empty:
  "generator_slot_empty st \<Longrightarrow>
     generator_switch backend st = ([], Inl (Error (generator_validation_message (generationMode st))))"
  by (cases "generationMode st")
     (auto simp: generator_slot_empty_def generator_switch_def generator_validation_message_def
           Let_def split: option.splits)

text \<open>
  C9, as amended. Submitting a workflow while a required upload slot is empty issues no
  network call. When no configuration error is set it produces the validation message of
  the workflow (for the generator, of the selected mode); for the extractor the message
  is \<open>Please upload an image to process.\<close>, with the final full stop. When a
  configuration error is set the handler returns at once: no call, no message.
\<close>

theorem submit_with_empty_slot:
  "(generator_slot_empty st \<longrightarrow> snd (handleGeneratorSubmit backend st) = [])
   \<and> (imageFile (sourceImage st) = None \<longrightarrow> snd (handleProcessImage gc st) = [])
   \<and> (imageFile (patternOutline st) = None \<or> patternMaterials st = [] \<longrightarrow>
        snd (handlePatternSubmit gc st) = [])
   \<and> (\<not> truthy (apiKeyError st) \<and> generator_slot_empty st \<longrightarrow>
        error (fst (handleGeneratorSubmit backend st))
          = Some (generator_validation_message (generationMode st))
        \<and> outputImages (fst (handleGeneratorSubmit backend st)) = None)
   \<and> (\<not> truthy (apiKeyError st) \<and> imageFile (sourceImage st) = None \<longrightarrow>
        fst (handleProcessImage gc st)
          = st\<lparr>processingError := Some ''Please upload an image to process.''\<rparr>)
   \<and> (\<not> truthy (apiKeyError st)
        \<and> (imageFile (patternOutline st) = None \<or> patternMaterials st = []) \<longrightarrow>
        fst (handlePatternSubmit gc st)
          = st\<lparr>patternError :=
                  Some ''Please provide a Pattern Outline and at least one Material Image.''\<rparr>)
   \<and> (truthy (apiKeyError st) \<longrightarrow>
        handleGeneratorSubmit backend st = (st, [])
        \<and> handleProcessImage gc st = (st, [])
        \<and> handlePatternSubmit gc st = (st, []))"
proof -
  have g: "generator_slot_empty st \<Longrightarrow> snd (handleGeneratorSubmit backend st) = []"
    by (simp add: handleGeneratorSubmit_def generator_switch_slot_empty)
  have g2: "\<not> truthy (apiKeyError st) \<Longrightarrow> generator_slot_empty st \<Longrightarrow>
        error (fst (handleGeneratorSubmit backend st))
          = Some (generator_validation_message (generationMode st))
        \<and> outputImages (fst (handleGeneratorSubmit backend st)) = None"
    by (simp add: handleGeneratorSubmit_def generator_switch_slot_empty)
  have e: "imageFile (sourceImage st) = None \<Longrightarrow> snd (handleProcessImage gc st) = []"
    by (simp add: handleProcessImage_def)
  have e2: "\<not> truthy (apiKeyError st) \<Longrightarrow> imageFile (sourceImage st) = None \<Longrightarrow>
        fst (handleProcessImage gc st)
          = st\<lparr>processingError := Some ''Please upload an image to process.''\<rparr>"
    by (simp add: handleProcessImage_def)
  have p: "imageFile (patternOutline st) = None \<or> patternMaterials st = [] \<Longrightarrow>
        snd (handlePatternSubmit gc st) = []"
    by (auto simp: handlePatternSubmit_def split: option.splits)
  have p2: "\<not> truthy (apiKeyError st) \<Longrightarrow>
        imageFile (patternOutline st) = None \<or> patternMaterials st = [] \<Longrightarrow>
        fst (handlePatternSubmit gc st)
          = st\<lparr>patternError :=
                  Some ''Please provide a Pattern Outline and at least one Material Image.''\<rparr>"
    by (auto simp: handlePatternSubmit_def split: option.splits)
  have k: "truthy (apiKeyError st) \<Longrightarrow>
        handleGeneratorSubmit backend st = (st, [])
        \<and> handleProcessImage gc st = (st, [])
        \<and> handlePatternSubmit gc st = (st, [])"
    by (simp add: handleGeneratorSubmit_def handleProcessImage_def handlePatternSubmit_def)
  show ?thesis using g g2 e e2 p p2 k by blast
qed

text \<open>
  The initial state, where every slot is empty, without and with a configuration error.
\<close>

theorem submit_with_empty_slot_witness:
  "generator_slot_empty initialApp
   \<and> snd (handleGeneratorSubmit (\<lambda>i request. Inl NonError) initialApp) = []
   \<and> error (fst (handleGeneratorSubmit (\<lambda>i request. Inl NonError) initialApp))
       = Some ''Please upload a Render Shot, a Pattern, and at least one Material image.''
   \<and> imageFile (sourceImage initialApp) = None
   \<and> handleProcessImage (\<lambda>request. Inl NonError) initialApp
       = (initialApp\<lparr>processingError := Some ''Please upload an image to process.''\<rparr>, [])
   \<and> imageFile (patternOutline initialApp) = None
   \<and> handlePatternSubmit (\<lambda>request. Inl NonError) initialApp
       = (initialApp\<lparr>patternError :=
            Some ''Please provide a Pattern Outline and at least one Material Image.''\<rparr>, [])
   \<and> truthy (apiKeyError (initialApp\<lparr>apiKeyError := Some ''Configuration Error''\<rparr>))
   \<and> handleProcessImage (\<lambda>request. Inl NonError)
         (initialApp\<lparr>apiKeyError := Some ''Configuration Error''\<rparr>)
       = (initialApp\<lparr>apiKeyError := Some ''Configuration Error''\<rparr>, [])"
proof -
  have a: "\<not> truthy (apiKeyError initialApp)"
    by (simp add: initialApp_def truthy_def)
  have g: "generator_slot_empty initialApp"
    by (simp add: initialApp_def generator_slot_empty_def noImage_def)
  have e: "imageFile (sourceImage initialApp) = None"
    by (simp add: initialApp_def noImage_def)
  have p: "imageFile (patternOutline initialApp) = None"
    by (simp add: initialApp_def noImage_def)
  have m: "generationMode initialApp = PatternAndMaterial"
    by (simp add: initialApp_def)
  have k: "truthy (apiKeyError (initialApp\<lparr>apiKeyError := Some ''Configuration Error''\<rparr>))"
    by (simp add: truthy_def)
  show ?thesis
    using a g e p k
      submit_with_empty_slot [of initialApp "\<lambda>i request. Inl NonError" "\<lambda>request. Inl NonError"]
      submit_with_empty_slot [of "initialApp\<lparr>apiKeyError := Some ''Configuration Error''\<rparr>"
         "\<lambda>i request. Inl NonError" "\<lambda>request. Inl NonError"]
    by (simp add: m generator_validation_message_def prod_eq_iff)
qed

text \<open>
  C9 as stated fails. With a configuration error set, submitting the extractor with no
  source image produces no validation message; and without one, the message produced
  is not exactly \<open>Please upload an image to process\<close>: it ends with a full stop.
\<close>

theorem submit_with_empty_slot_counterexample:
  "imageFile (sourceImage (initialApp\<lparr>apiKeyError := Some ''Configuration Error: The Google API Key is missing. Please ensure the API_KEY is correctly configured in your environment.''\<rparr>)) = None
   \<and> processingError (fst (handleProcessImage (\<lambda>request. Inl NonError)
        (initialApp\<lparr>apiKeyError := Some ''Configuration Error: The Google API Key is missing. Please ensure the API_KEY is correctly configured in your environment.''\<rparr>))) = None
   \<and> imageFile (sourceImage initialApp) = None
   \<and> processingError (fst (handleProcessImage (\<lambda>request. Inl NonError) initialApp))
       = Some ''Please upload an image to process.''
   \<and> processingError (fst (handleProcessImage (\<lambda>request. Inl NonError) initialApp))
       \<noteq> Some ''Please upload an image to process''"
  by (simp add: handleProcessImage_def initialApp_def noImage_def truthy_def)

section \<open>Batches\<close>

lemma promise_all_no_rejection:
  "\<forall>r \<in> set rs. \<not> isl r \<Longrightarrow> promise_all rs = Inr (map projr rs)"
  by (induction rs rule: promise_all.induct) auto

lemma promise_all_rejection:
  "\<exists>r \<in> set rs. isl r \<Longrightarrow> isl (promise_all rs)"
  by (induction rs rule: promise_all.induct) (auto split: sum.splits)

lemma fst_generateSurfaceDesign:
  "length (fst (generateSurfaceDesign backend prompt images)) = 1"
  by (simp add: generateSurfaceDesign_def Let_def)

lemma length_concat_singletons:
  "\<forall>x \<in> set xs. length (f x) = 1 \<Longrightarrow> length (concat (map f xs)) = length xs"
  by (induction xs) auto

lemma runBatchGeneration_calls:
  "length (fst (runBatchGeneration backend prompt imageFiles n)) = n"
proof -
  have "length (concat (map (\<lambda>i. fst (generateSurfaceDesign (backend i) prompt imageFiles)) [0..<n]))
        = length [0..<n]"
    by (rule length_concat_singletons) (simp add: fst_generateSurfaceDesign)
  then show ?thesis
    by (simp add: runBatchGeneration_def Let_def comp_def)
qed

lemma images_of_results:
  "\<forall>r \<in> set rs. \<not> isl r \<Longrightarrow>
     map the (filter (\<lambda>url. url \<noteq> None) (map projr rs)) = member_images rs"
proof (induction rs)
  case Nil
  then show ?case by (simp add: member_images_def)
next
  case (Cons r rs)
  then obtain v where r: "r = Inr v" by (cases r) auto
  from Cons have "map the (filter (\<lambda>url. url \<noteq> None) (map projr rs)) = member_images rs"
    by simp
  then show ?case by (cases v) (simp_all add: r member_images_def)
qed

text \<open>
  C1, as amended. A batch of \<open>n\<close> calls issues \<open>n\<close> requests. When no member call
  throws, the batch fails exactly when no member produced an image, and otherwise returns
  the images of the members that produced one, in the order of the calls (members without
  an image are dropped). When some member call throws, the batch fails, whatever the
  other members returned.
\<close>

theorem runBatchGeneration_outcome:
  "((\<forall>m \<in> set (batch_members backend prompt imageFiles n). \<not> isl m) \<longrightarrow>
      snd (runBatchGeneration backend prompt imageFiles n) =
        (if member_images (batch_members backend prompt imageFiles n) = [] then
           Inl (Error ''The AI failed to generate any images. Please try a different combination of images or prompt.'')
         else Inr (member_images (batch_members backend prompt imageFiles n))))
   \<and> ((\<exists>m \<in> set (batch_members backend prompt imageFiles n). isl m) \<longrightarrow>
      isl (snd (runBatchGeneration backend prompt imageFiles n)))
   \<and> length (fst (runBatchGeneration backend prompt imageFiles n)) = n"
proof -
  let ?ms = "batch_members backend prompt imageFiles n"
  have snd_eq: "snd (runBatchGeneration backend prompt imageFiles n) =
      (case promise_all ?ms of
         Inl e \<Rightarrow> Inl e
       | Inr results \<Rightarrow>
          (let imageUrls = map the (filter (\<lambda>url. url \<noteq> None) results)
           in if length imageUrls = 0 then
                Inl (Error ''The AI failed to generate any images. Please try a different combination of images or prompt.'')
              else Inr imageUrls))"
    by (simp add: runBatchGeneration_def batch_members_def Let_def comp_def)
  have ok: "snd (runBatchGeneration backend prompt imageFiles n) =
        (if member_images ?ms = [] then
           Inl (Error ''The AI failed to generate any images. Please try a different combination of images or prompt.'')
         else Inr (member_images ?ms))"
    if "\<forall>m \<in> set ?ms. \<not> isl m"
    using promise_all_no_rejection [OF that] images_of_results [OF that]
    by (simp add: snd_eq Let_def)
  have bad: "isl (snd (runBatchGeneration backend prompt imageFiles n))"
    if "\<exists>m \<in> set ?ms. isl m"
    using promise_all_rejection [OF that]
    by (cases "promise_all ?ms") (simp_all add: snd_eq)
  show ?thesis using ok bad runBatchGeneration_calls by blast
qed

lemma batch_mixed_members:
  "batch_members
     backend_text_at_1
     (PatternOnlyPrompt Flooring None) [sample_file ''image/png'', sample_file ''image/png''] 3
   = [Inr (Some ''data:image/png;base64,AA==''), Inr None, Inr (Some ''data:image/png;base64,AA=='')]"
  by code_simp

lemma batch_throwing_members:
  "batch_members
     backend_throws_at_1
     (PatternOnlyPrompt Flooring None) [sample_file ''image/png'', sample_file ''image/png''] 2
   = [Inr (Some ''data:image/png;base64,AA==''), Inl (Error ''quota exceeded'')]"
  by code_simp

text \<open>
  Three calls of which the second returns text only: two images. Two calls of which the
  second throws: a failure.
\<close>

theorem runBatchGeneration_outcome_witness:
  "batch_members backend_text_at_1 (PatternOnlyPrompt Flooring None)
       [sample_file ''image/png'', sample_file ''image/png''] 3
     = [Inr (Some ''data:image/png;base64,AA==''), Inr None,
        Inr (Some ''data:image/png;base64,AA=='')]
   \<and> snd (runBatchGeneration backend_text_at_1 (PatternOnlyPrompt Flooring None)
        [sample_file ''image/png'', sample_file ''image/png''] 3)
      = Inr [''data:image/png;base64,AA=='', ''data:image/png;base64,AA=='']
   \<and> batch_members backend_throws_at_1 (PatternOnlyPrompt Flooring None)
       [sample_file ''image/png'', sample_file ''image/png''] 2
     = [Inr (Some ''data:image/png;base64,AA==''), Inl (Error ''quota exceeded'')]
   \<and> isl (snd (runBatchGeneration backend_throws_at_1 (PatternOnlyPrompt Flooring None)
        [sample_file ''image/png'', sample_file ''image/png''] 2))"
  using runBatchGeneration_outcome
      [of backend_text_at_1 "PatternOnlyPrompt Flooring None"
          "[sample_file ''image/png'', sample_file ''image/png'']" 3]
    runBatchGeneration_outcome
      [of backend_throws_at_1 "PatternOnlyPrompt Flooring None"
          "[sample_file ''image/png'', sample_file ''image/png'']" 2]
  by (simp add: batch_mixed_members batch_throwing_members member_images_def)

text \<open>
  C1 as stated fails: of two member calls the first yields an image and the second
  throws; the batch is an overall failure with the thrown error.
\<close>

theorem runBatchGeneration_thrown_counterexample:
  "snd (generateSurfaceDesign (backend_throws_at_1 0)
         (PatternOnlyPrompt Flooring None) [sample_file ''image/png'', sample_file ''image/png''])
     = Inr (Some ''data:image/png;base64,AA=='')
   \<and> snd (runBatchGeneration
        backend_throws_at_1
        (PatternOnlyPrompt Flooring None) [sample_file ''image/png'', sample_file ''image/png''] 2)
     = Inl (Error ''quota exceeded'')"
  by code_simp

section \<open>Which image part wins\<close>

lemma first_inlineData_first:
  "\<forall>p \<in> set ps. inlineData p = None \<Longrightarrow> inlineData q = Some b \<Longrightarrow>
     first_inlineData (ps @ q # qs) = Some (dataUri b)"
  by (induction ps) auto

lemma fold_edit_part_no_image:
  "\<forall>p \<in> set qs. inlineData p = None \<Longrightarrow> fst (fold edit_part qs acc) = fst acc"
  by (induction qs arbitrary: acc) (auto simp: edit_part_def)

lemma fold_edit_part_last_image:
  "inlineData q = Some b \<Longrightarrow> \<forall>p \<in> set qs. inlineData p = None \<Longrightarrow>
     fst (fold edit_part (ps @ q # qs) acc) = Some (dataUri b)"
  by (simp add: fold_edit_part_no_image edit_part_def)

text \<open>
  C3. On a response with two image parts, generateSurfaceDesign returns the data URI of
  the first part (MIME type, \<open>;base64,\<close>, payload), and editImageWithPrompt returns the
  data URI of the second: its loop has no \<open>break\<close>, so a later image part overwrites
  an earlier one.
\<close>

theorem edit_takes_last_image:
  "snd (generateSurfaceDesign
         (\<lambda>request. Inr (response_of_parts
            [image_part ''image/png'' ''AA=='', image_part ''image/jpeg'' ''AQ=='']))
         (PatternOnlyPrompt Flooring None) [sample_file ''image/png'', sample_file ''image/png''])
     = Inr (Some ''data:image/png;base64,AA=='')
   \<and> snd (editImageWithPrompt
         (\<lambda>request. Inr (response_of_parts
            [image_part ''image/png'' ''AA=='', image_part ''image/jpeg'' ''AQ=='']))
         (Some ''iVBORw=='') ''image/png'' ''make the floor darker'')
     = Inr (Some ''data:image/jpeg;base64,AQ=='', None)"
  by code_simp

section \<open>Chat turns: properties\<close>

lemma handleEdit_calls:
  "\<forall>c \<in> set (snd (handleEdit backend later message currentImage cb success st)).
      c \<noteq> ChatSendMessage message"
  by (auto simp: handleEdit_def editImageWithPrompt_def Let_def
           split: sum.splits prod.splits if_splits exn.splits)

lemma handleSendMessage_generator:
  assumes "\<not> truthy (apiKeyError st)" and "activeTab st = Tab_generator"
    and "outputImages st = Some (first # rest)"
  shows "handleSendMessage backend sendMessage now later message st =
           handleEdit backend later message first
             (\<lambda>newUrl s. s\<lparr>outputImages := Some [newUrl]\<rparr>)
             ''Of course. Here is the updated design.'' (user_turn now message st)"
  using assms by (simp add: handleSendMessage_def user_turn_def Let_def)

lemma handleSendMessage_pattern:
  assumes "\<not> truthy (apiKeyError st)" and "activeTab st = Tab_pattern"
    and "patternOutput st = Some u" and "u \<noteq> []"
  shows "handleSendMessage backend sendMessage now later message st =
           handleEdit backend later message u
             (\<lambda>newUrl s. s\<lparr>patternOutput := Some newUrl\<rparr>)
             ''Of course. Here is the updated pattern.'' (user_turn now message st)"
  using assms by (simp add: handleSendMessage_def user_turn_def Let_def truthy_def js_string_def)

lemma handleSendMessage_chat:
  assumes "\<not> truthy (apiKeyError st)"
    and "\<not> (activeTab st \<noteq> Tab_extractor \<and> output_nonempty (activeTab st) st)"
    and "chatRef st \<noteq> None"
  shows "snd (handleSendMessage backend sendMessage now later message st)
           = [ChatSendMessage message]"
  using assms
  by (cases "activeTab st")
     (auto simp: handleSendMessage_def output_nonempty_def Let_def
           split: option.splits sum.splits)

text \<open>
  C2, as amended. For a chat turn that the handler accepts (no configuration error) while
  the chat session exists: the text is forwarded to the session, as the only network call
  of the turn, exactly when the turn is not an edit turn; and the turn is an edit turn
  exactly when the active workflow is the generator or the pattern studio and its output
  slot is non-empty. An edit turn runs handleEdit on the first generator output, or on the
  pattern output. With the extractor active the turn is never an edit turn.
\<close>

theorem chat_turn_dispatch:
  assumes "\<not> truthy (apiKeyError st)" and "chatRef st \<noteq> None"
  shows "((snd (handleSendMessage backend sendMessage now later message st)
             = [ChatSendMessage message])
          = (\<not> (activeTab st \<noteq> Tab_extractor \<and> output_nonempty (activeTab st) st)))
       \<and> (activeTab st = Tab_generator \<longrightarrow>
            (\<forall>first rest. outputImages st = Some (first # rest) \<longrightarrow>
               handleSendMessage backend sendMessage now later message st =
                 handleEdit backend later message first
                   (\<lambda>newUrl s. s\<lparr>outputImages := Some [newUrl]\<rparr>)
                   ''Of course. Here is the updated design.'' (user_turn now message st)))
       \<and> (activeTab st = Tab_pattern \<longrightarrow>
            (\<forall>u. patternOutput st = Some u \<and> u \<noteq> [] \<longrightarrow>
               handleSendMessage backend sendMessage now later message st =
                 handleEdit backend later message u
                   (\<lambda>newUrl s. s\<lparr>patternOutput := Some newUrl\<rparr>)
                   ''Of course. Here is the updated pattern.'' (user_turn now message st)))"
proof -
  let ?hs = "handleSendMessage backend sendMessage now later message st"
  let ?edit = "activeTab st \<noteq> Tab_extractor \<and> output_nonempty (activeTab st) st"
  have chat: "snd ?hs = [ChatSendMessage message]" if "\<not> ?edit"
    using assms that by (intro handleSendMessage_chat) simp_all
  have edit: "snd ?hs \<noteq> [ChatSendMessage message]" if e: "?edit"
  proof (cases "activeTab st")
    case Tab_generator
    with e obtain first rest where o: "outputImages st = Some (first # rest)"
      by (auto simp: output_nonempty_def split: option.splits list.splits) (metis list.exhaust)
    show ?thesis
      using handleEdit_calls
        [of backend later message first "\<lambda>newUrl s. s\<lparr>outputImages := Some [newUrl]\<rparr>"
            "''Of course. Here is the updated design.''" "user_turn now message st"]
      by (auto simp: handleSendMessage_generator [OF assms(1) Tab_generator o])
  next
    case Tab_extractor
    with e show ?thesis by simp
  next
    case Tab_pattern
    with e obtain u where o: "patternOutput st = Some u" "u \<noteq> []"
      by (auto simp: output_nonempty_def truthy_def split: option.splits)
    show ?thesis
      using handleEdit_calls
        [of backend later message u "\<lambda>newUrl s. s\<lparr>patternOutput := Some newUrl\<rparr>"
            "''Of course. Here is the updated pattern.''" "user_turn now message st"]
      by (auto simp: handleSendMessage_pattern [OF assms(1) Tab_pattern o])
  qed
  show ?thesis
    using chat edit handleSendMessage_generator [OF assms(1)]
      handleSendMessage_pattern [OF assms(1)]
    by blast
qed

lemma sample_states:
  "\<not> truthy (apiKeyError generator_with_batch)"
  "\<not> truthy (apiKeyError extractor_with_output)"
  "chatRef generator_with_batch \<noteq> None"
  "chatRef extractor_with_output \<noteq> None"
  "activeTab generator_with_batch = Tab_generator"
  "activeTab extractor_with_output = Tab_extractor"
  "outputImages generator_with_batch =
     Some (''data:image/png;base64,AA=='' # [''data:image/png;base64,AQ=='', ''data:image/png;base64,Ag==''])"
  "output_nonempty Tab_generator generator_with_batch"
  "output_nonempty Tab_extractor extractor_with_output"
  by (simp_all add: generator_with_batch_def extractor_with_output_def initialApp_def
        truthy_def output_nonempty_def)

lemma sample_parse:
  "parseDataUrl ''data:image/png;base64,AA=='' = Inr (''image/png'', Some ''AA=='')"
  by code_simp

text \<open>
  The generator showing a batch and the pattern studio showing a pattern: edit turns. The
  extractor showing an output: forwarded to the session.
\<close>

theorem chat_turn_dispatch_witness:
  "\<not> truthy (apiKeyError generator_with_batch) \<and> chatRef generator_with_batch \<noteq> None
   \<and> output_nonempty (activeTab generator_with_batch) generator_with_batch
   \<and> snd (handleSendMessage backend_image chat_reply 10 20 ''make it darker'' generator_with_batch)
       \<noteq> [ChatSendMessage ''make it darker'']
   \<and> handleSendMessage backend_image chat_reply 10 20 ''make it darker'' generator_with_batch
       = handleEdit backend_image 20 ''make it darker'' ''data:image/png;base64,AA==''
           (\<lambda>newUrl s. s\<lparr>outputImages := Some [newUrl]\<rparr>)
           ''Of course. Here is the updated design.''
           (user_turn 10 ''make it darker'' generator_with_batch)
   \<and> \<not> truthy (apiKeyError pattern_with_output) \<and> chatRef pattern_with_output \<noteq> None
   \<and> handleSendMessage backend_image chat_reply 10 20 ''make it darker'' pattern_with_output
       = handleEdit backend_image 20 ''make it darker'' ''data:image/png;base64,AA==''
           (\<lambda>newUrl s. s\<lparr>patternOutput := Some newUrl\<rparr>)
           ''Of course. Here is the updated pattern.''
           (user_turn 10 ''make it darker'' pattern_with_output)
   \<and> \<not> truthy (apiKeyError extractor_with_output) \<and> chatRef extractor_with_output \<noteq> None
   \<and> snd (handleSendMessage backend_image chat_reply 10 20 ''make it darker'' extractor_with_output)
       = [ChatSendMessage ''make it darker'']"
proof -
  have p: "\<not> truthy (apiKeyError pattern_with_output)" "chatRef pattern_with_output \<noteq> None"
    "activeTab pattern_with_output = Tab_pattern"
    "patternOutput pattern_with_output = Some ''data:image/png;base64,AA==''"
    by (simp_all add: pattern_with_output_def initialApp_def truthy_def)
  note g = chat_turn_dispatch [OF sample_states(1) sample_states(3),
          of backend_image chat_reply 10 20 "''make it darker''"]
  note e = chat_turn_dispatch [OF sample_states(2) sample_states(4),
          of backend_image chat_reply 10 20 "''make it darker''"]
  note q = chat_turn_dispatch [OF p(1) p(2),
          of backend_image chat_reply 10 20 "''make it darker''"]
  have g1: "snd (handleSendMessage backend_image chat_reply 10 20 ''make it darker'' generator_with_batch)
       \<noteq> [ChatSendMessage ''make it darker'']"
    using g [THEN conjunct1] by (simp add: sample_states)
  have g2: "handleSendMessage backend_image chat_reply 10 20 ''make it darker'' generator_with_batch
       = handleEdit backend_image 20 ''make it darker'' ''data:image/png;base64,AA==''
           (\<lambda>newUrl s. s\<lparr>outputImages := Some [newUrl]\<rparr>)
           ''Of course. Here is the updated design.''
           (user_turn 10 ''make it darker'' generator_with_batch)"
    using g [THEN conjunct2, THEN conjunct1] sample_states(5) sample_states(7) by blast
  have q2: "handleSendMessage backend_image chat_reply 10 20 ''make it darker'' pattern_with_output
       = handleEdit backend_image 20 ''make it darker'' ''data:image/png;base64,AA==''
           (\<lambda>newUrl s. s\<lparr>patternOutput := Some newUrl\<rparr>)
           ''Of course. Here is the updated pattern.''
           (user_turn 10 ''make it darker'' pattern_with_output)"
  proof -
    have "''data:image/png;base64,AA=='' \<noteq> []" by simp
    with q [THEN conjunct2, THEN conjunct2] p(3) p(4) show ?thesis by blast
  qed
  have e1: "snd (handleSendMessage backend_image chat_reply 10 20 ''make it darker'' extractor_with_output)
       = [ChatSendMessage ''make it darker'']"
    using e [THEN conjunct1] by (simp add: sample_states)
  have o: "output_nonempty (activeTab generator_with_batch) generator_with_batch"
    by (simp add: sample_states)
  show ?thesis
    by (intro conjI g1 g2 q2 e1 o p(1) p(2) sample_states(1) sample_states(2) sample_states(3)
          sample_states(4))
qed

text \<open>
  C2 as stated fails: with the extractor active and its output slot non-empty, the turn
  is not an edit turn; the text goes to the chat session, whose reply is appended, and the
  processed image stays as it was.
\<close>

theorem extractor_turn_is_chat_counterexample:
  "activeTab extractor_with_output = Tab_extractor
   \<and> processedImage extractor_with_output = Some ''data:image/png;base64,AA==''
   \<and> snd (handleSendMessage backend_image chat_reply 10 20 ''make it darker'' extractor_with_output)
       = [ChatSendMessage ''make it darker'']
   \<and> processedImage
        (fst (handleSendMessage backend_image chat_reply 10 20 ''make it darker'' extractor_with_output))
       = Some ''data:image/png;base64,AA==''
   \<and> map msg_text
        (messages (fst (handleSendMessage backend_image chat_reply 10 20 ''make it darker''
                          extractor_with_output)))
       = [''Hello! How can I assist you with your Bovali design today?'', ''make it darker'',
          ''Certainly.'']"
  by (simp add: handleSendMessage_def extractor_with_output_def initialApp_def truthy_def
        chat_reply_def)

lemma response_text_snoc:
  "response_text (ps @ [p]) = (if truthy (partText p) then partText p else response_text ps)"
  by (simp add: response_text_def)

lemma fold_edit_part_text_only:
  "\<forall>p \<in> set ps. inlineData p = None \<Longrightarrow>
     fold edit_part ps (img, txt) =
       (img, case response_text ps of None \<Rightarrow> txt | Some t \<Rightarrow> Some t)"
proof (induction ps rule: rev_induct)
  case Nil
  then show ?case by (simp add: response_text_def)
next
  case (snoc p ps)
  then show ?case
    by (auto simp: response_text_snoc edit_part_def truthy_def split: option.splits)
qed

lemma response_text_truthy:
  assumes "response_text ps = Some t"
  shows "truthy (Some t)"
proof (cases "rev (filter truthy (map partText ps))")
  case Nil
  with assms show ?thesis by (simp add: response_text_def)
next
  case (Cons v vs)
  with assms have v: "v = Some t" by (simp add: response_text_def)
  have "v \<in> set (rev (filter truthy (map partText ps)))"
    by (simp only: Cons list.set_intros)
  then have "truthy v" by simp
  then show ?thesis by (simp add: v)
qed

lemma editImageWithPrompt_text_only:
  assumes "backend [InlineData base64 mime, TextPart (EditPrompt message)] = Inr response"
    and "candidates response = Some (c # cs)" and "content c = Some ct"
    and "parts ct = Some ps"
    and "\<forall>p \<in> set ps. inlineData p = None" and "response_text ps = Some t"
  shows "editImageWithPrompt backend base64 mime message =
           ([GenerateContent [InlineData base64 mime, TextPart (EditPrompt message)]],
            Inl (Error (''The AI responded but did not return an image: '' @ [CHR 0x22] @ t
                        @ [CHR 0x22])))"
proof -
  have tt: "truthy (Some t)"
    using assms(6) by (rule response_text_truthy)
  have "edit_parts response = Inr (None, Some t)"
    using assms by (simp add: edit_parts_def fold_edit_part_text_only)
  then show ?thesis
    using assms(1) tt by (simp add: editImageWithPrompt_def Let_def truthy_def js_string_def)
qed

lemma fst_editImageWithPrompt:
  "fst (editImageWithPrompt backend base64 mime message)
     = [GenerateContent [InlineData base64 mime, TextPart (EditPrompt message)]]"
  by (simp add: editImageWithPrompt_def Let_def)

lemma editImageWithPrompt_success_truthy:
  "snd (editImageWithPrompt backend base64 mime message) = Inr (imageUrl, txt) \<Longrightarrow>
     truthy imageUrl"
  by (auto simp: editImageWithPrompt_def Let_def split: sum.splits exn.splits if_splits)

lemma handleEdit_error:
  assumes "parseDataUrl currentImage = Inr (mime, base64)"
    and "snd (editImageWithPrompt backend base64 mime message) = Inl (Error m)"
  shows "handleEdit backend later message currentImage cb success st =
           (st\<lparr>messages := messages st @
                  [\<lparr>msg_id = later + 1, msg_text = m, msg_sender = Sender_bot\<rparr>],
               isBotTyping := False\<rparr>,
            [GenerateContent [InlineData base64 mime, TextPart (EditPrompt message)]])"
proof -
  have "editImageWithPrompt backend base64 mime message =
          ([GenerateContent [InlineData base64 mime, TextPart (EditPrompt message)]],
           Inl (Error m))"
    using assms(2) fst_editImageWithPrompt [of backend base64 mime message]
    by (simp add: prod_eq_iff)
  then show ?thesis
    using assms(1) by (simp add: handleEdit_def)
qed

lemma handleEdit_success:
  assumes "parseDataUrl currentImage = Inr (mime, base64)"
    and "snd (editImageWithPrompt backend base64 mime message) = Inr (Some newUrl, txt)"
  shows "handleEdit backend later message currentImage cb success st =
           ((cb newUrl st)
              \<lparr>messages := messages st @
                 [\<lparr>msg_id = later + 1,
                   msg_text = (if truthy txt then js_string txt else success),
                   msg_sender = Sender_bot\<rparr>],
               isBotTyping := False\<rparr>,
            [GenerateContent [InlineData base64 mime, TextPart (EditPrompt message)]])"
proof -
  have t: "truthy (Some newUrl)"
    using assms(2) by (rule editImageWithPrompt_success_truthy)
  have "editImageWithPrompt backend base64 mime message =
          ([GenerateContent [InlineData base64 mime, TextPart (EditPrompt message)]],
           Inr (Some newUrl, txt))"
    using assms(2) fst_editImageWithPrompt [of backend base64 mime message]
    by (simp add: prod_eq_iff)
  then show ?thesis
    using assms(1) t by (simp add: handleEdit_def js_string_def)
qed

text \<open>
  C4. In an edit turn (the generator or the pattern studio is active and shows an
  output, which parses as a data URL) where the backend answers with parts that carry no
  image and some non-empty text \<open>t\<close>: editImageWithPrompt throws an error whose message
  carries \<open>t\<close>; the state after the turn is the state before it with two messages
  appended, the user's text and a bot turn with that error message, and the typing
  indicator off; so every output slot is as it was.
\<close>

theorem text_only_edit_reports_error:
  assumes "\<not> truthy (apiKeyError st)"
    and "(activeTab st = Tab_generator \<and> outputImages st = Some (currentImage # rest))
         \<or> (activeTab st = Tab_pattern \<and> patternOutput st = Some currentImage
             \<and> currentImage \<noteq> [])"
    and "parseDataUrl currentImage = Inr (mime, base64)"
    and "backend [InlineData base64 mime, TextPart (EditPrompt message)] = Inr response"
    and "candidates response = Some (c # cs)" and "content c = Some ct"
    and "parts ct = Some ps"
    and "\<forall>p \<in> set ps. inlineData p = None" and "response_text ps = Some t"
  shows "snd (editImageWithPrompt backend base64 mime message) =
           Inl (Error (''The AI responded but did not return an image: '' @ [CHR 0x22] @ t
                       @ [CHR 0x22]))
       \<and> handleSendMessage backend sendMessage now later message st =
           (st\<lparr>messages := messages st @
                  [\<lparr>msg_id = now, msg_text = message, msg_sender = Sender_user\<rparr>,
                   \<lparr>msg_id = later + 1,
                    msg_text = ''The AI responded but did not return an image: ''
                               @ [CHR 0x22] @ t @ [CHR 0x22],
                    msg_sender = Sender_bot\<rparr>],
               isBotTyping := False\<rparr>,
            [GenerateContent [InlineData base64 mime, TextPart (EditPrompt message)]])
       \<and> outputImages (fst (handleSendMessage backend sendMessage now later message st))
           = outputImages st
       \<and> patternOutput (fst (handleSendMessage backend sendMessage now later message st))
           = patternOutput st
       \<and> processedImage (fst (handleSendMessage backend sendMessage now later message st))
           = processedImage st"
proof -
  let ?m = "''The AI responded but did not return an image: '' @ [CHR 0x22] @ t @ [CHR 0x22]"
  have e: "snd (editImageWithPrompt backend base64 mime message) = Inl (Error ?m)"
    using assms(4-9) by (simp add: editImageWithPrompt_text_only [where backend = backend])
  have h: "handleEdit backend later message currentImage cb success (user_turn now message st) =
           (st\<lparr>messages := messages st @
                  [\<lparr>msg_id = now, msg_text = message, msg_sender = Sender_user\<rparr>,
                   \<lparr>msg_id = later + 1, msg_text = ?m, msg_sender = Sender_bot\<rparr>],
               isBotTyping := False\<rparr>,
            [GenerateContent [InlineData base64 mime, TextPart (EditPrompt message)]])"
    for cb success
    using handleEdit_error [OF assms(3) e, of later cb success "user_turn now message st"]
    by (simp add: user_turn_def)
  have hs: "handleSendMessage backend sendMessage now later message st =
           (st\<lparr>messages := messages st @
                  [\<lparr>msg_id = now, msg_text = message, msg_sender = Sender_user\<rparr>,
                   \<lparr>msg_id = later + 1, msg_text = ?m, msg_sender = Sender_bot\<rparr>],
               isBotTyping := False\<rparr>,
            [GenerateContent [InlineData base64 mime, TextPart (EditPrompt message)]])"
    using assms(2)
  proof
    assume "activeTab st = Tab_generator \<and> outputImages st = Some (currentImage # rest)"
    then show ?thesis
      using handleSendMessage_generator [OF assms(1), of currentImage rest] h by simp
  next
    assume "activeTab st = Tab_pattern \<and> patternOutput st = Some currentImage
             \<and> currentImage \<noteq> []"
    then show ?thesis
      using handleSendMessage_pattern [OF assms(1), of currentImage] h by simp
  qed
  show ?thesis using e by (simp add: hs)
qed

text \<open>
  The generator showing a batch, and a backend that answers with text only.
\<close>

theorem text_only_edit_reports_error_witness:
  "parseDataUrl ''data:image/png;base64,AA=='' = Inr (''image/png'', Some ''AA=='')
   \<and> backend_text_only [InlineData (Some ''AA=='') ''image/png'', TextPart (EditPrompt ''make it darker'')]
       = Inr (response_of_parts [text_part ''I cannot edit this image.''])
   \<and> response_text [text_part ''I cannot edit this image.''] = Some ''I cannot edit this image.''
   \<and> outputImages
        (fst (handleSendMessage backend_text_only chat_reply 10 20 ''make it darker'' generator_with_batch))
       = outputImages generator_with_batch
   \<and> map msg_text
        (messages (fst (handleSendMessage backend_text_only chat_reply 10 20 ''make it darker''
                          generator_with_batch)))
       = [''Hello! How can I assist you with your Bovali design today?'', ''make it darker'',
          ''The AI responded but did not return an image: '' @ [CHR 0x22]
            @ ''I cannot edit this image.'' @ [CHR 0x22]]"
proof -
  let ?ps = "[text_part ''I cannot edit this image.'']"
  have b: "backend_text_only [InlineData (Some ''AA=='') ''image/png'', TextPart (EditPrompt ''make it darker'')]
       = Inr (response_of_parts ?ps)"
    by (simp add: backend_text_only_def)
  have c: "candidates (response_of_parts ?ps) = Some (\<lparr>content = Some \<lparr>parts = Some ?ps\<rparr>\<rparr> # [])"
    by (simp add: response_of_parts_def)
  have ct: "content \<lparr>content = Some \<lparr>parts = Some ?ps\<rparr>\<rparr> = Some \<lparr>parts = Some ?ps\<rparr>"
    by simp
  have pt: "parts \<lparr>parts = Some ?ps\<rparr> = Some ?ps"
    by simp
  have n: "\<forall>p \<in> set ?ps. inlineData p = None"
    by (simp add: text_part_def)
  have t: "response_text ?ps = Some ''I cannot edit this image.''"
    by (simp add: response_text_def text_part_def truthy_def)
  have g: "(activeTab generator_with_batch = Tab_generator
            \<and> outputImages generator_with_batch =
                Some (''data:image/png;base64,AA=='' #
                      [''data:image/png;base64,AQ=='', ''data:image/png;base64,Ag=='']))
         \<or> (activeTab generator_with_batch = Tab_pattern
             \<and> patternOutput generator_with_batch = Some ''data:image/png;base64,AA==''
             \<and> ''data:image/png;base64,AA=='' \<noteq> [])"
    by (simp add: sample_states)
  show ?thesis
    using text_only_edit_reports_error
      [where st = generator_with_batch and backend = backend_text_only
         and sendMessage = chat_reply and now = 10 and later = 20
         and message = "''make it darker''", OF sample_states(1) g sample_parse b c ct pt n t]
    by (simp add: sample_parse b t generator_with_batch_def initialApp_def)
qed

section \<open>Base64: decoding what was encoded\<close>




























section \<open>Data URLs: the round trip\<close>




lemma nth_opt_list: "nth_opt (x # xs) 0 = Some x" "nth_opt [x, y] 1 = Some y"
  by (simp_all add: nth_opt_def)

lemma split_on_no_sep: "sep \<notin> set s \<Longrightarrow> split_on sep s = [s]"
  by (induction s) auto

lemma split_on_one_sep:
  "sep \<notin> set a \<Longrightarrow> sep \<notin> set b \<Longrightarrow> split_on sep (a @ sep # b) = [a, b]"
  by (induction a) (auto simp: split_on_no_sep)

lemma lazy_until_semicolon_found:
  "CHR '';'' \<notin> set t \<Longrightarrow> \<forall>c \<in> set t. \<not> line_terminator c \<Longrightarrow>
     lazy_until_semicolon (t @ CHR '';'' # r) = Some t"
  by (induction t) auto

lemma match_mime_data:
  "CHR '';'' \<notin> set t \<Longrightarrow> \<forall>c \<in> set t. \<not> line_terminator c \<Longrightarrow>
     match_mime (''data:'' @ t @ '';base64'') = Some t"
  using lazy_until_semicolon_found [of t "''base64''"] by simp


lemma split_data_url:
  "CHR '','' \<notin> set t \<Longrightarrow> CHR '','' \<notin> set payload \<Longrightarrow>
     split_on CHR '','' (''data:'' @ t @ '';base64,'' @ payload) = [''data:'' @ t @ '';base64'', payload]"
  using split_on_one_sep [of "CHR '',''" "''data:'' @ t @ '';base64''" payload] by simp










text \<open>
  The data URI that generateSurfaceDesign builds from a part parses back, in parseDataUrl,
  to the part's MIME type and payload.
\<close>

lemma parseDataUrl_data_url:
  assumes "CHR '','' \<notin> set t" and "CHR '','' \<notin> set payload" and "CHR '';'' \<notin> set t"
    and "\<forall>c \<in> set t. \<not> line_terminator c"
  shows "parseDataUrl (''data:'' @ t @ '';base64,'' @ payload) = Inr (t, Some payload)"
  unfolding parseDataUrl_def Let_def split_data_url [OF assms(1,2)]
  by (simp only: nth_opt_list option.simps match_mime_data [OF assms(3,4)])

section \<open>Editing the first image of a batch\<close>

text \<open>
  C10. When the generator shows a batch whose first element is the data URI
  \<open>data:t;base64,payload\<close> (as generateSurfaceDesign builds it from a part with MIME type
  \<open>t\<close> and the base64 text \<open>payload\<close>) and the edit call of a chat turn succeeds
  with the image \<open>newUrl\<close>: the one request of the turn carries the payload and the MIME
  type of that first element, and the output list becomes \<open>[newUrl]\<close>; the other
  elements of the batch are gone.
\<close>

theorem generator_edit_replaces_batch:
  assumes "\<not> truthy (apiKeyError st)" and "activeTab st = Tab_generator"
    and "outputImages st = Some ((''data:'' @ t @ '';base64,'' @ payload) # rest)"
    and "CHR '','' \<notin> set t" and "CHR '','' \<notin> set payload"
    and "CHR '';'' \<notin> set t" and "\<forall>c \<in> set t. \<not> line_terminator c"
    and "snd (editImageWithPrompt backend (Some payload) t message) = Inr (Some newUrl, txt)"
  shows "snd (handleSendMessage backend sendMessage now later message st)
           = [GenerateContent [InlineData (Some payload) t, TextPart (EditPrompt message)]]
       \<and> outputImages (fst (handleSendMessage backend sendMessage now later message st))
           = Some [newUrl]"
proof -
  have p: "parseDataUrl (''data:'' @ t @ '';base64,'' @ payload) = Inr (t, Some payload)"
    using assms(4-7) by (rule parseDataUrl_data_url)
  show ?thesis
    using handleEdit_success [OF p assms(8), of later
        "\<lambda>newUrl s. s\<lparr>outputImages := Some [newUrl]\<rparr>"
        "''Of course. Here is the updated design.''" "user_turn now message st"]
    by (simp add: handleSendMessage_generator [OF assms(1-3)])
qed

text \<open>A batch of three images and a backend that answers with an image.\<close>

theorem generator_edit_replaces_batch_witness:
  "outputImages generator_with_batch
     = Some [''data:image/png;base64,AA=='', ''data:image/png;base64,AQ=='',
             ''data:image/png;base64,Ag=='']
   \<and> snd (handleSendMessage backend_image chat_reply 10 20 ''make it darker'' generator_with_batch)
       = [GenerateContent [InlineData (Some ''AA=='') ''image/png'',
                           TextPart (EditPrompt ''make it darker'')]]
   \<and> outputImages
        (fst (handleSendMessage backend_image chat_reply 10 20 ''make it darker'' generator_with_batch))
       = Some [''data:image/png;base64,Aw=='']"
proof -
  have o: "outputImages generator_with_batch
             = Some ((''data:'' @ ''image/png'' @ '';base64,'' @ ''AA=='') #
                     [''data:image/png;base64,AQ=='', ''data:image/png;base64,Ag==''])"
    by (simp add: sample_states)
  have c: "CHR '','' \<notin> set ''image/png''" "CHR '','' \<notin> set ''AA==''"
    "CHR '';'' \<notin> set ''image/png''"
    by simp_all
  have l: "\<forall>c \<in> set ''image/png''. \<not> line_terminator c"
    by (simp add: line_terminator_def)
  have e: "snd (editImageWithPrompt backend_image (Some ''AA=='') ''image/png'' ''make it darker'')
         = Inr (Some ''data:image/png;base64,Aw=='', Some ''Done.'')"
    by code_simp
  show ?thesis
    using generator_edit_replaces_batch
      [where backend = backend_image and sendMessage = chat_reply and now = 10 and later = 20
         and t = "''image/png''" and payload = "''AA==''",
       OF sample_states(1) sample_states(5) o c(1) c(2) c(3) l e]
    by (simp add: sample_states)
qed

end
